theory Spec2Isabelle
  imports Main "HOL-Library.Word"
begin

unbundle bit_operations_syntax

section \<open>Stage 1 of the JSON parser: structural index discovery\<close>

text \<open>
  The development embeds \<^verbatim>\<open>src/generic/stage1_find_marks.h\<close> and the constructors of
  \<^verbatim>\<open>include/simdjson/jsonstream.h\<close>. Reference parameters of the C++ functions become
  extra results; the caller's variables become fields of a state record that is passed
  through the calls.
\<close>

subsection \<open>Machine types and status codes\<close>

type_synonym u8 = "8 word"
type_synonym u32 = "32 word"
type_synonym u64 = "64 word"

text \<open>
  Modelled from the spec: the enumeration of status codes is declared in a header that
  is not part of the sources at hand. The names and their order are those of the
  section on external interfaces; \<open>SUCCESS\<close> is 0.
\<close>

datatype error_code =
    SUCCESS | CAPACITY | MEMALLOC | TAPE_ERROR | DEPTH_ERROR | STRING_ERROR
  | T_ATOM_ERROR | F_ATOM_ERROR | N_ATOM_ERROR | NUMBER_ERROR | UTF8_ERROR
  | UNINITIALIZED | EMPTY | UNESCAPED_CHARS | UNCLOSED_STRING | UNEXPECTED_ERROR

fun error_value :: "error_code \<Rightarrow> int" where
  "error_value SUCCESS = 0"
| "error_value CAPACITY = 1"
| "error_value MEMALLOC = 2"
| "error_value TAPE_ERROR = 3"
| "error_value DEPTH_ERROR = 4"
| "error_value STRING_ERROR = 5"
| "error_value T_ATOM_ERROR = 6"
| "error_value F_ATOM_ERROR = 7"
| "error_value N_ATOM_ERROR = 8"
| "error_value NUMBER_ERROR = 9"
| "error_value UTF8_ERROR = 10"
| "error_value UNINITIALIZED = 11"
| "error_value EMPTY = 12"
| "error_value UNESCAPED_CHARS = 13"
| "error_value UNCLOSED_STRING = 14"
| "error_value UNEXPECTED_ERROR = 15"

subsection \<open>The SIMD primitives\<close>

text \<open>
  Modelled from the spec: \<^verbatim>\<open>simd_input64\<close>, its comparisons \<^verbatim>\<open>eq\<close> and \<^verbatim>\<open>lteq\<close>, and
  the classifier \<^verbatim>\<open>find_whitespace_and_structurals\<close> live in the per-architecture
  headers, which are missing. A \<^verbatim>\<open>simd_input64\<close> is 64 bytes loaded from a pointer; each
  comparison yields a 64-bit mask whose bit \<open>i\<close> is set iff byte \<open>i\<close> has the property.
  Memory is a function from offsets to bytes, so a pointer \<^verbatim>\<open>p + k\<close> is the pair of the
  memory and the offset \<open>k\<close>.
\<close>

type_synonym memory = "nat \<Rightarrow> u8"
type_synonym simd_input64 = "u8 list"

definition simd_input64 :: "memory \<Rightarrow> nat \<Rightarrow> simd_input64" where
  "simd_input64 in_buf off = map (\<lambda>i. in_buf (off + i)) [0..<64]"

definition bitmask :: "bool list \<Rightarrow> u64" where
  "bitmask bs = horner_sum of_bool 2 bs"

definition eq64 :: "simd_input64 \<Rightarrow> u8 \<Rightarrow> u64" where
  "eq64 in64 m = bitmask (map (\<lambda>b. b = m) in64)"

definition lteq64 :: "simd_input64 \<Rightarrow> u8 \<Rightarrow> u64" where
  "lteq64 in64 m = bitmask (map (\<lambda>b. b \<le> m) in64)"

definition is_whitespace :: "u8 \<Rightarrow> bool" where
  "is_whitespace b \<longleftrightarrow> b = 0x20 \<or> b = 0x09 \<or> b = 0x0A \<or> b = 0x0D"

definition is_structural :: "u8 \<Rightarrow> bool" where
  "is_structural b \<longleftrightarrow>
     b = 0x7B \<or> b = 0x7D \<or> b = 0x5B \<or> b = 0x5D \<or> b = 0x2C \<or> b = 0x3A"

definition find_whitespace_and_structurals :: "simd_input64 \<Rightarrow> u64 \<times> u64" where
  "find_whitespace_and_structurals in64 =
     (bitmask (map is_whitespace in64), bitmask (map is_structural in64))"

text \<open>
  Modelled from the spec: \<^verbatim>\<open>add_overflow\<close> is the checked addition of the missing
  portability header: the wrapped sum together with the carry out of bit 63, which is
  set exactly when the wrapped sum is below an operand.
\<close>

definition add_overflow :: "u64 \<Rightarrow> u64 \<Rightarrow> bool \<times> u64" where
  "add_overflow a b = (a + b < a, a + b)"

text \<open>
  Modelled from the spec: \<^verbatim>\<open>compute_quote_mask\<close> is the carry-less multiplication by
  all-ones of the missing per-architecture header, that is the prefix XOR: bit \<open>i\<close> of
  the result is the XOR of the bits \<open>j \<le> i\<close> of the argument.
\<close>

definition compute_quote_mask :: "u64 \<Rightarrow> u64" where
  "compute_quote_mask quote_bits =
     bitmask (map (\<lambda>i. odd (length (filter (bit quote_bits) [0..<Suc i]))) [0..<64])"

subsection \<open>Odd-length backslash runs\<close>

text \<open>
  \<^verbatim>\<open>find_odd_backslash_sequences\<close>, lines 15 to 47. The result is the mask \<open>odd_ends\<close>
  paired with the new value of the reference parameter
  \<open>prev_iter_ends_odd_backslash\<close>.
\<close>

definition even_bits :: u64 where
  "even_bits = 0x5555555555555555"

definition odd_bits :: u64 where
  "odd_bits = NOT even_bits"

definition find_odd_backslash_sequences :: "u64 \<Rightarrow> bool \<Rightarrow> u64 \<times> bool" where
  "find_odd_backslash_sequences bs_bits prev_iter_ends_odd_backslash =
     (let start_edges = bs_bits AND NOT (push_bit 1 bs_bits);
          even_start_mask = even_bits XOR of_bool prev_iter_ends_odd_backslash;
          even_starts = start_edges AND even_start_mask;
          odd_starts = start_edges AND NOT even_start_mask;
          even_carries = bs_bits + even_starts;
          (iter_ends_odd_backslash, odd_carries0) = add_overflow bs_bits odd_starts;
          odd_carries = odd_carries0 OR of_bool prev_iter_ends_odd_backslash;
          even_carry_ends = even_carries AND NOT bs_bits;
          odd_carry_ends = odd_carries AND NOT bs_bits;
          even_start_odd_end = even_carry_ends AND odd_bits;
          odd_start_even_end = odd_carry_ends AND even_bits;
          odd_ends = even_start_odd_end OR odd_start_even_end
      in (odd_ends, iter_ends_odd_backslash))"

subsection \<open>Quote mask\<close>

text \<open>
  \<^verbatim>\<open>find_quote_mask_and_bits\<close>, lines 61 to 75. The result is the returned
  \<open>quote_mask\<close> followed by the new values of the reference parameters
  \<open>prev_iter_inside_quote\<close>, \<open>quote_bits\<close> and \<open>error_mask\<close>. The cast to a signed
  integer and the right shift by 63 are \<^const>\<open>signed_drop_bit\<close>.
\<close>

definition find_quote_mask_and_bits ::
  "u64 \<Rightarrow> u64 \<Rightarrow> u64 \<Rightarrow> u64 \<Rightarrow> u64 \<Rightarrow> u64 \<times> u64 \<times> u64 \<times> u64" where
  "find_quote_mask_and_bits unescaped odd_ends prev_iter_inside_quote quote_bits0 error_mask =
     (let quote_bits = quote_bits0 AND NOT odd_ends;
          quote_mask = compute_quote_mask quote_bits XOR prev_iter_inside_quote;
          error_mask' = error_mask OR (quote_mask AND unescaped);
          prev_iter_inside_quote' = signed_drop_bit 63 quote_mask
      in (quote_mask, prev_iter_inside_quote', quote_bits, error_mask'))"

subsection \<open>Structurals and pseudo-structurals\<close>

text \<open>
  \<^verbatim>\<open>finalize_structurals\<close>, lines 77 to 108. The result is the returned mask and the
  new value of \<open>prev_iter_ends_pseudo_pred\<close>.
\<close>

definition finalize_structurals ::
  "u64 \<Rightarrow> u64 \<Rightarrow> u64 \<Rightarrow> u64 \<Rightarrow> bool \<Rightarrow> u64 \<times> bool" where
  "finalize_structurals structurals0 whitespace quote_mask quote_bits prev_iter_ends_pseudo_pred =
     (let structurals1 = structurals0 AND NOT quote_mask;
          structurals2 = structurals1 OR quote_bits;
          pseudo_pred = structurals2 OR whitespace;
          shifted_pseudo_pred = push_bit 1 pseudo_pred OR of_bool prev_iter_ends_pseudo_pred;
          prev_iter_ends_pseudo_pred' = (drop_bit 63 pseudo_pred \<noteq> 0);
          pseudo_structurals = shifted_pseudo_pred AND NOT whitespace AND NOT quote_mask;
          structurals3 = structurals2 OR pseudo_structurals;
          structurals4 = structurals3 AND NOT (quote_bits AND NOT quote_mask)
      in (structurals4, prev_iter_ends_pseudo_pred'))"

subsection \<open>The state of a scan\<close>

text \<open>
  Modelled from the spec: the class \<^verbatim>\<open>utf8_checker\<close> is missing. It is taken as a
  parameter: a start state, the incremental check of one 64-byte input, and the final
  verdict, which stage 1 reports as \<open>UTF8_ERROR\<close> or \<open>SUCCESS\<close>.
\<close>

record 'u utf8_checker =
  utf8_init :: 'u
  check_next_input :: "simd_input64 \<Rightarrow> 'u \<Rightarrow> 'u"
  has_error :: "'u \<Rightarrow> bool"

definition errors :: "'u utf8_checker \<Rightarrow> 'u \<Rightarrow> error_code" where
  "errors chk u = (if has_error chk u then UTF8_ERROR else SUCCESS)"

text \<open>
  The variables that \<^verbatim>\<open>find_structural_bits\<close> passes by reference to the chunk kernel:
  the cursor \<open>idx\<close>, the output array behind \<open>base_ptr\<close> with its fill count \<open>base\<close>, and
  the six carries. The array is a function from slots to 32-bit offsets; \<open>base\<close> is a
  32-bit counter, kept as a natural number with the wrap-around written out.
\<close>

record 'u stage1 =
  idx :: nat
  base_ptr :: "nat \<Rightarrow> u32"
  base :: nat
  prev_iter_ends_odd_backslash :: bool
  prev_iter_inside_quote :: u64
  prev_iter_ends_pseudo_pred :: bool
  prev_structurals :: u64
  error_mask :: u64
  utf8_state :: 'u

subsection \<open>Flattening\<close>

text \<open>
  Modelled from the spec: \<^verbatim>\<open>flatten_bits\<close> is missing. The positions of the set bits of
  the mask are written to the output array in increasing order, starting at slot
  \<open>base\<close>, and \<open>base\<close> advances by their number. The mask is the one of the previous
  64-byte lane and \<open>idx\<close> has already moved past that lane, so the offset of bit \<open>i\<close>
  is \<open>idx - 64 + i\<close>, in 32-bit arithmetic (scenario 1 of the spec fixes this base).
  An empty mask writes nothing.
\<close>

definition bit_positions :: "u64 \<Rightarrow> nat list" where
  "bit_positions bits = filter (bit bits) [0..<64]"

fun write_indexes :: "(nat \<Rightarrow> u32) \<Rightarrow> nat \<Rightarrow> u32 list \<Rightarrow> (nat \<Rightarrow> u32)" where
  "write_indexes a k [] = a"
| "write_indexes a k (v # vs) = write_indexes (a(k := v)) (Suc k) vs"

definition flatten_bits :: "u64 \<Rightarrow> 'u stage1 \<Rightarrow> 'u stage1" where
  "flatten_bits bits s =
     (if bits = 0 then s
      else let ps = bit_positions bits;
               vs = map (\<lambda>i. (word_of_nat (idx s) :: u32) - 64 + word_of_nat i) ps
           in s\<lparr>base_ptr := write_indexes (base_ptr s) (base s) vs,
                base := (base s + length ps) mod 2 ^ 32\<rparr>)"

subsection \<open>The chunk kernel\<close>

text \<open>
  Modelled from the spec: \<^verbatim>\<open>each64\<close>, \<^verbatim>\<open>map64\<close>, \<^verbatim>\<open>bitmask_array\<close> and the constant
  \<^verbatim>\<open>SIMD_WIDTH\<close> are missing. A chunk of \<^verbatim>\<open>SIMD_WIDTH\<close> bytes consists of
  \<open>lanes\<close> lanes of 64 bytes; \<open>each64\<close> runs its body for the lane numbers
  \<open>0, \<dots>, lanes - 1\<close> in order, and \<open>map64\<close> also collects one mask per lane. The
  number of lanes is a parameter of the model.
\<close>

type_synonym bitmask_array = "nat \<Rightarrow> u64"

definition SIMD_WIDTH :: "nat \<Rightarrow> nat" where
  "SIMD_WIDTH lanes = 64 * lanes"

definition each64 :: "nat \<Rightarrow> (nat \<Rightarrow> 's \<Rightarrow> 's) \<Rightarrow> 's \<Rightarrow> 's" where
  "each64 lanes body s = fold body [0..<lanes] s"

definition map64 :: "nat \<Rightarrow> (nat \<Rightarrow> 's \<Rightarrow> u64 \<times> 's) \<Rightarrow> 's \<Rightarrow> bitmask_array \<times> 's" where
  "map64 lanes body s =
     fold (\<lambda>chunk (arr, s). case body chunk s of (m, s') \<Rightarrow> (arr(chunk := m), s'))
       [0..<lanes] (\<lambda>_. 0, s)"

text \<open>
  The kernel \<^verbatim>\<open>find_structural_bits\<close> of lines 111 to 166: five passes over the lanes
  of the chunk at \<open>in_buf\<close>.
\<close>

definition find_structural_bits_chunk ::
  "nat \<Rightarrow> 'u utf8_checker \<Rightarrow> memory \<Rightarrow> 'u stage1 \<Rightarrow> 'u stage1" where
  "find_structural_bits_chunk lanes chk in_buf s0 =
     (let s1 = each64 lanes (\<lambda>chunk s.
            let in64 = simd_input64 in_buf (chunk * 64)
            in s\<lparr>utf8_state := check_next_input chk in64 (utf8_state s)\<rparr>) s0;
          (odd_ends, s2) = map64 lanes (\<lambda>chunk s.
            let in64 = simd_input64 in_buf (chunk * 64);
                (r, p) = find_odd_backslash_sequences (eq64 in64 0x5C)
                           (prev_iter_ends_odd_backslash s)
            in (r, s\<lparr>prev_iter_ends_odd_backslash := p\<rparr>)) s1;
          (quote_mask, quote_bits, s3) = map64 lanes (\<lambda>chunk (quote_bits, s).
            let in64 = simd_input64 in_buf (chunk * 64);
                quote_bits1 = quote_bits(chunk := eq64 in64 0x22);
                unescaped = lteq64 in64 0x1F;
                (qm, piq, qb, em) = find_quote_mask_and_bits unescaped (odd_ends chunk)
                           (prev_iter_inside_quote s) (quote_bits1 chunk) (error_mask s)
            in (qm, quote_bits1(chunk := qb),
                s\<lparr>prev_iter_inside_quote := piq, error_mask := em\<rparr>)) (\<lambda>_. 0, s2);
          (whitespace, structurals) = each64 lanes (\<lambda>chunk (whitespace, structurals).
            let in64 = simd_input64 in_buf (chunk * 64);
                (w, t) = find_whitespace_and_structurals in64
            in (whitespace(chunk := w), structurals(chunk := t))) (\<lambda>_. 0, \<lambda>_. 0)
      in each64 lanes (\<lambda>chunk s.
            let s' = flatten_bits (prev_structurals s) s;
                (r, p) = finalize_structurals (structurals chunk) (whitespace chunk)
                           (quote_mask chunk) (quote_bits chunk)
                           (prev_iter_ends_pseudo_pred s')
            in s'\<lparr>prev_structurals := r, prev_iter_ends_pseudo_pred := p,
                  idx := idx s' + 64\<rparr>) s3)"

subsection \<open>The entry point\<close>

text \<open>
  Modelled from the spec: of the class \<^verbatim>\<open>ParsedJson\<close> only the three members that
  stage 1 uses. The count is a 32-bit counter, kept as a natural number with the
  wrap-around written out.
\<close>

record ParsedJson =
  byte_capacity :: nat
  structural_indexes :: "nat \<Rightarrow> u32"
  n_structural_indexes :: nat

text \<open>
  The main loop of lines 208 to 213. With no lane in a chunk the kernel does not advance
  \<open>idx\<close> and the loop does not end; not returning is the value \<open>None\<close>.
\<close>

partial_function (option) main_loop ::
  "nat \<Rightarrow> 'u utf8_checker \<Rightarrow> memory \<Rightarrow> nat \<Rightarrow> 'u stage1 \<Rightarrow> 'u stage1 option" where
  "main_loop lanes chk buf last_chunk_idx s =
     (if idx s < last_chunk_idx
      then main_loop lanes chk buf last_chunk_idx
             (find_structural_bits_chunk lanes chk (\<lambda>i. buf (idx s + i)) s)
      else Some s)"

declare main_loop.simps [code]

text \<open>
  The final chunk of lines 216 to 224: \<open>tmp_buf\<close> is filled with spaces, the rest of the
  input is copied over its start, and the kernel runs on \<open>tmp_buf\<close>.
\<close>

definition tmp_buf :: "memory \<Rightarrow> nat \<Rightarrow> nat \<Rightarrow> memory" where
  "tmp_buf buf i len =
     (\<lambda>k. if k < len - i then buf (i + k) else 0x20)"

definition final_chunk ::
  "nat \<Rightarrow> 'u utf8_checker \<Rightarrow> memory \<Rightarrow> nat \<Rightarrow> 'u stage1 \<Rightarrow> 'u stage1" where
  "final_chunk lanes chk buf len s =
     (if idx s < len
      then find_structural_bits_chunk lanes chk (tmp_buf buf (idx s) len) s
      else s)"

definition initial_state :: "'u utf8_checker \<Rightarrow> ParsedJson \<Rightarrow> 'u stage1" where
  "initial_state chk pj =
     \<lparr>idx = 0, base_ptr = structural_indexes pj, base = 0,
      prev_iter_ends_odd_backslash = False, prev_iter_inside_quote = 0,
      prev_iter_ends_pseudo_pred = True, prev_structurals = 0, error_mask = 0,
      utf8_state = utf8_init chk\<rparr>"

text \<open>Lines 203 to 224: the scan of the whole buffer, up to the end-of-scan checks.\<close>

definition scan ::
  "nat \<Rightarrow> 'u utf8_checker \<Rightarrow> memory \<Rightarrow> nat \<Rightarrow> ParsedJson \<Rightarrow> 'u stage1 option" where
  "scan lanes chk buf len pj =
     (let last_chunk_idx = (if len < SIMD_WIDTH lanes then 0 else len - SIMD_WIDTH lanes)
      in map_option (final_chunk lanes chk buf len)
           (main_loop lanes chk buf last_chunk_idx (initial_state chk pj)))"

text \<open>
  Lines 226 to 254: the checks after the scan. The array behind \<open>base_ptr\<close> is the
  array of \<open>pj\<close>, so every write of the scan is visible in the \<open>pj\<close> that is returned.
\<close>

definition finish ::
  "'u utf8_checker \<Rightarrow> nat \<Rightarrow> ParsedJson \<Rightarrow> 'u stage1 \<Rightarrow> error_code \<times> ParsedJson" where
  "finish chk len pj s =
     (if prev_iter_inside_quote s \<noteq> 0
      then (UNCLOSED_STRING, pj\<lparr>structural_indexes := base_ptr s\<rparr>)
      else
        let s' = flatten_bits (prev_structurals s) s;
            a = base_ptr s';
            n = base s'
        in if n = 0 then (EMPTY, pj\<lparr>structural_indexes := a, n_structural_indexes := n\<rparr>)
           else if unat (a (n - 1)) > len
           then (UNEXPECTED_ERROR, pj\<lparr>structural_indexes := a, n_structural_indexes := n\<rparr>)
           else
             let (a1, n1) = (if len \<noteq> unat (a (n - 1))
                             then (a(n := word_of_nat len), Suc n mod 2 ^ 32)
                             else (a, n));
                 a2 = a1(n1 := 0);
                 pj' = pj\<lparr>structural_indexes := a2, n_structural_indexes := n1\<rparr>
             in if error_mask s \<noteq> 0 then (UNESCAPED_CHARS, pj')
                else (errors chk (utf8_state s), pj'))"

text \<open>The entry point \<^verbatim>\<open>find_structural_bits\<close> of lines 168 to 255.\<close>

definition find_structural_bits ::
  "nat \<Rightarrow> 'u utf8_checker \<Rightarrow> memory \<Rightarrow> nat \<Rightarrow> ParsedJson \<Rightarrow> (error_code \<times> ParsedJson) option" where
  "find_structural_bits lanes chk buf len pj =
     (if len > byte_capacity pj then Some (CAPACITY, pj)
      else map_option (finish chk len pj) (scan lanes chk buf len pj))"

subsection \<open>The stream driver's constructors\<close>

text \<open>
  The class \<^verbatim>\<open>JsonStream\<close> of \<^verbatim>\<open>jsonstream.h\<close>, lines 17 to 46, with its
  data members and their default member initialisers. The member
  \<open>best_implementation\<close> has no initialiser and no constructor sets it, so it is
  \<open>None\<close> after construction. A default argument is an optional parameter. A
  \<^verbatim>\<open>std::string\<close> is its list of bytes; \<^verbatim>\<open>data()\<close> points to a memory holding them.
\<close>

typedecl Architecture

record JsonStream =
  best_implementation :: "Architecture option"
  buf :: memory
  next_json :: nat
  batch_size :: nat
  len :: nat
  error_on_last_attempt :: bool
  load_next_batch :: bool
  current_buffer_loc :: nat
  n_parsed_docs :: nat
  n_bytes_parsed :: nat

definition mem_of :: "u8 list \<Rightarrow> memory" where
  "mem_of xs = (\<lambda>i. if i < length xs then xs ! i else 0)"

definition JsonStream_buf :: "memory \<Rightarrow> nat \<Rightarrow> nat option \<Rightarrow> JsonStream" where
  "JsonStream_buf b l batch =
     \<lparr>best_implementation = None, buf = b, next_json = 0,
      batch_size = (case batch of None \<Rightarrow> 1000000 | Some n \<Rightarrow> n),
      len = l, error_on_last_attempt = False, load_next_batch = True,
      current_buffer_loc = 0, n_parsed_docs = 0, n_bytes_parsed = 0\<rparr>"

definition JsonStream_string :: "u8 list \<Rightarrow> nat option \<Rightarrow> JsonStream" where
  "JsonStream_string s batch =
     JsonStream_buf (mem_of s) (length s)
       (Some (case batch of None \<Rightarrow> 1000000 | Some n \<Rightarrow> n))"

section \<open>Properties\<close>

subsection \<open>The default batch size\<close>

text \<open>
  Claim C8. A \<open>JsonStream\<close> constructed without a \<open>batch_size\<close> argument, from a
  pointer and a length or from a string, has \<open>batch_size\<close> equal to 1,000,000.
\<close>

theorem default_batch_size:
  "batch_size (JsonStream_buf b l None) = 1000000 \<and>
   batch_size (JsonStream_string str None) = 1000000"
  by (simp add: JsonStream_buf_def JsonStream_string_def)

end
